theory Spec2Isabelle
  imports Complex_Main
begin

section \<open>The image editor (components/ImageEditor.tsx)\<close>

text \<open>
  JavaScript numbers are IEEE 754 doubles.  They are modelled as \<^typ>\<open>real\<close>, and the rounding
  of an arithmetic result to the nearest double is written out where a whole number is taken
  from the result: the pixel coordinates of the crop step, which the canvas truncates
  (\<open>to_double\<close> below).  The drag arithmetic and the trigonometry of the rotation are exact;
  \<open>NaN\<close> and the infinities are not modelled.  The only place of the editor where a non-finite
  value can arise is the division by the container's rendered size in \<open>handleMouseMove\<close>;
  statements about it carry the hypothesis that the rendered box is not degenerate.
\<close>

subsection \<open>Editor state\<close>

text \<open>\<open>cropRect\<close>: \<open>{ x, y, w, h }\<close>, percentages of the displayed image.\<close>

record crop_rect =
  rect_x :: real
  rect_y :: real
  rect_w :: real
  rect_h :: real

text \<open>The \<open>type\<close> of a drag: \<open>'move' | 'nw' | 'ne' | 'sw' | 'se'\<close> (\<open>null\<close> is \<open>None\<close>).\<close>

datatype drag_type = Move | NW | NE | SW | SE

text \<open>The value held by \<open>dragRef.current\<close> during a gesture.\<close>

record drag =
  startX :: real
  startY :: real
  startRect :: crop_rect
  dtype :: "drag_type option"

text \<open>
  The component's \<open>useState\<close> cells and the \<open>dragRef\<close> reference
  (\<open>dragRef.current = null\<close> is \<open>None\<close>).
\<close>

record editor =
  brightness :: real
  contrast :: real
  saturation :: real
  rotation :: int
  isCropping :: bool
  cropRect :: crop_rect
  dragRef :: "drag option"

text \<open>The part of a mouse event the handlers read.\<close>

record mouse_event =
  clientX :: real
  clientY :: real

text \<open>The part of \<open>containerRef.current.getBoundingClientRect()\<close> the handlers read.\<close>

record dom_rect =
  box_width :: real
  box_height :: real

definition default_rect :: crop_rect where
  "default_rect = \<lparr>rect_x = 10, rect_y = 10, rect_w = 80, rect_h = 80\<rparr>"

text \<open>The state after mounting: the initial values of the \<open>useState\<close> and \<open>useRef\<close> calls.\<close>

definition initial_editor :: editor where
  "initial_editor =
     \<lparr>brightness = 100, contrast = 100, saturation = 100, rotation = 0,
      isCropping = False, cropRect = default_rect, dragRef = None\<rparr>"

subsection \<open>Crop-rectangle drag handlers\<close>

definition handleMouseDown :: "editor \<Rightarrow> mouse_event \<Rightarrow> drag_type \<Rightarrow> editor" where
  "handleMouseDown st e ty =
     st\<lparr>dragRef := Some \<lparr>startX = clientX e, startY = clientY e,
                           startRect = cropRect st, dtype = Some ty\<rparr>\<rparr>"

text \<open>
  \<open>handleMouseMove\<close>; the second argument is \<open>containerRef.current\<close>, already measured
  (\<open>None\<close> when the reference is \<open>null\<close>).  For \<open>'move'\<close> the source assigns
  \<open>newRect.x\<close> and then \<open>newRect.y\<close>, reading \<open>newRect.w\<close> and \<open>newRect.h\<close> of the copy.
\<close>

definition handleMouseMove :: "editor \<Rightarrow> dom_rect option \<Rightarrow> mouse_event \<Rightarrow> editor" where
  "handleMouseMove st container e =
     (case dragRef st of
        None \<Rightarrow> st
      | Some d \<Rightarrow>
          (case container of
             None \<Rightarrow> st
           | Some containerRect \<Rightarrow>
               (let deltaX = ((clientX e - startX d) / box_width containerRect) * 100;
                    deltaY = ((clientY e - startY d) / box_height containerRect) * 100;
                    newRect = startRect d;
                    newRect' =
                      (if dtype d = Some Move then
                         (let r1 = newRect\<lparr>rect_x :=
                                     max 0 (min (100 - rect_w newRect) (rect_x (startRect d) + deltaX))\<rparr>
                          in r1\<lparr>rect_y :=
                                  max 0 (min (100 - rect_h r1) (rect_y (startRect d) + deltaY))\<rparr>)
                       else if dtype d = Some SE then
                         (let r1 = newRect\<lparr>rect_w :=
                                     max 10 (min (100 - rect_x (startRect d)) (rect_w (startRect d) + deltaX))\<rparr>
                          in r1\<lparr>rect_h :=
                                  max 10 (min (100 - rect_y (startRect d)) (rect_h (startRect d) + deltaY))\<rparr>)
                       else newRect)
                in st\<lparr>cropRect := newRect'\<rparr>)))"

definition handleMouseUp :: "editor \<Rightarrow> editor" where
  "handleMouseUp st = st\<lparr>dragRef := None\<rparr>"

text \<open>
  The effect registers both listeners on \<open>window\<close> only while \<open>isCropping\<close> holds; these
  are the window's reactions to the two events.
\<close>

definition window_mousemove :: "editor \<Rightarrow> dom_rect option \<Rightarrow> mouse_event \<Rightarrow> editor" where
  "window_mousemove st container e =
     (if isCropping st then handleMouseMove st container e else st)"

definition window_mouseup :: "editor \<Rightarrow> editor" where
  "window_mouseup st = (if isCropping st then handleMouseUp st else st)"


subsection \<open>Sidebar controls\<close>

definition toggleCropping :: "editor \<Rightarrow> editor" where
  "toggleCropping st = st\<lparr>isCropping := \<not> isCropping st\<rparr>"

definition rotateCcw :: "editor \<Rightarrow> editor" where
  "rotateCcw st = st\<lparr>rotation := rotation st - 90\<rparr>"

definition rotateCw :: "editor \<Rightarrow> editor" where
  "rotateCw st = st\<lparr>rotation := rotation st + 90\<rparr>"

text \<open>The three sliders: \<open>onChange\<close> stores \<open>Number(e.target.value)\<close>.\<close>

definition setBrightness :: "editor \<Rightarrow> real \<Rightarrow> editor" where
  "setBrightness st v = st\<lparr>brightness := v\<rparr>"

definition setContrast :: "editor \<Rightarrow> real \<Rightarrow> editor" where
  "setContrast st v = st\<lparr>contrast := v\<rparr>"

definition setSaturation :: "editor \<Rightarrow> real \<Rightarrow> editor" where
  "setSaturation st v = st\<lparr>saturation := v\<rparr>"

text \<open>The \<open>onClick\<close> of the reset button: six setter calls.\<close>

definition resetAll :: "editor \<Rightarrow> editor" where
  "resetAll st =
     st\<lparr>brightness := 100, contrast := 100, saturation := 100, rotation := 0,
        isCropping := False,
        cropRect := \<lparr>rect_x = 10, rect_y = 10, rect_w = 80, rect_h = 80\<rparr>\<rparr>"

subsection \<open>The specification's vocabulary for the crop rectangle\<close>

text \<open>
  \<open>clamp(lo, hi, v)\<close> as the specification writes it: \<open>v\<close> cut down to at most \<open>hi\<close> and then
  raised to at least \<open>lo\<close>.  Between ordered bounds this is the value of the interval
  \<open>[lo, hi]\<close> nearest to \<open>v\<close> (lemma \<open>clamp_cases\<close> below).
\<close>

definition clamp :: "real \<Rightarrow> real \<Rightarrow> real \<Rightarrow> real" where
  "clamp lo hi v = max lo (min hi v)"

text \<open>The CropRect invariant of the data model.\<close>

definition crop_inv :: "crop_rect \<Rightarrow> bool" where
  "crop_inv r \<longleftrightarrow>
     0 \<le> rect_x r \<and> 0 \<le> rect_y r \<and> rect_x r + rect_w r \<le> 100 \<and>
     rect_y r + rect_h r \<le> 100 \<and> 10 \<le> rect_w r \<and> 10 \<le> rect_h r"



subsection \<open>The canvas interface used by \<open>handleSave\<close>\<close>

text \<open>
  The browser's canvas is not code of this repository; what follows writes out the part of
  its documented behaviour that \<open>handleSave\<close> relies on.  A bitmap is kept as the list of
  drawing commands issued since it was last cleared, oldest first, each with the filter and
  the transformation in force when it was issued; the colour of single pixels (and with it
  resampling and the lossy compression) is not modelled.
\<close>

text \<open>
  The exceptions that occur: the canvas's \<open>InvalidStateError\<close>, a plain \<open>Error\<close> with its
  message, the \<open>SyntaxError\<close> of \<open>JSON.parse\<close> with its message, and a rejection of the
  hosted model's call.
\<close>

datatype js_error = InvalidStateError | Error string | SyntaxError string | ApiError string

text \<open>A decoded \<open>HTMLImageElement\<close>: \<open>img.width\<close> and \<open>img.height\<close>.\<close>

record image =
  img_width :: nat
  img_height :: nat

text \<open>
  The value of \<open>ctx.filter\<close>: \<open>none\<close>, or the chain
  \<open>brightness(b%) contrast(c%) saturate(s%)\<close> of the template string.
\<close>

datatype css_filter = FilterNone | FilterChain real real real

text \<open>
  The current transformation matrix, with the components \<open>a, b, c, d, e, f\<close> of the canvas
  interface: a point \<open>(x, y)\<close> is drawn at \<open>(a x + c y + e, b x + d y + f)\<close>.
\<close>

record dom_matrix =
  mat_a :: real
  mat_b :: real
  mat_c :: real
  mat_d :: real
  mat_e :: real
  mat_f :: real

definition identity_matrix :: dom_matrix where
  "identity_matrix = \<lparr>mat_a = 1, mat_b = 0, mat_c = 0, mat_d = 1, mat_e = 0, mat_f = 0\<rparr>"

definition translation_matrix :: "real \<Rightarrow> real \<Rightarrow> dom_matrix" where
  "translation_matrix tx ty = \<lparr>mat_a = 1, mat_b = 0, mat_c = 0, mat_d = 1, mat_e = tx, mat_f = ty\<rparr>"

definition rotation_matrix :: "real \<Rightarrow> dom_matrix" where
  "rotation_matrix angle =
     \<lparr>mat_a = cos angle, mat_b = sin angle, mat_c = - sin angle, mat_d = cos angle,
      mat_e = 0, mat_f = 0\<rparr>"

text \<open>\<open>mat_mul M N\<close> applies \<open>N\<close> first and \<open>M\<close> second.\<close>

definition mat_mul :: "dom_matrix \<Rightarrow> dom_matrix \<Rightarrow> dom_matrix" where
  "mat_mul M N =
     \<lparr>mat_a = mat_a M * mat_a N + mat_c M * mat_b N,
      mat_b = mat_b M * mat_a N + mat_d M * mat_b N,
      mat_c = mat_a M * mat_c N + mat_c M * mat_d N,
      mat_d = mat_b M * mat_c N + mat_d M * mat_d N,
      mat_e = mat_a M * mat_e N + mat_c M * mat_f N + mat_e M,
      mat_f = mat_b M * mat_e N + mat_d M * mat_f N + mat_f M\<rparr>"

definition apply_matrix :: "dom_matrix \<Rightarrow> real \<times> real \<Rightarrow> real \<times> real" where
  "apply_matrix M p =
     (mat_a M * fst p + mat_c M * snd p + mat_e M, mat_b M * fst p + mat_d M * snd p + mat_f M)"

text \<open>
  A drawing source is a decoded image or the bitmap of a canvas (its size and its commands).
  \<open>DrawImage src filter ctm sx sy sw sh dx dy dw dh\<close> paints the source rectangle
  \<open>(sx, sy, sw, sh)\<close> of \<open>src\<close> onto the destination rectangle \<open>(dx, dy, dw, dh)\<close>.
\<close>

datatype bitmap = ImageBitmap image | CanvasBitmap nat nat "draw_op list"
  and draw_op =
    DrawImage bitmap css_filter dom_matrix real real real real real real real real
  | ClearRect dom_matrix real real real real

fun bitmap_width :: "bitmap \<Rightarrow> nat" where
  "bitmap_width (ImageBitmap i) = img_width i"
| "bitmap_width (CanvasBitmap wd ht ops) = wd"

fun bitmap_height :: "bitmap \<Rightarrow> nat" where
  "bitmap_height (ImageBitmap i) = img_height i"
| "bitmap_height (CanvasBitmap wd ht ops) = ht"

text \<open>A canvas element together with the state of its 2D context.\<close>

record canvas =
  cv_width :: nat
  cv_height :: nat
  cv_bitmap :: "draw_op list"
  ctx_filter :: css_filter
  ctx_transform :: dom_matrix

text \<open>\<open>document.createElement('canvas')\<close>: 300 by 150, blank, context in its default state.\<close>

definition createCanvas :: canvas where
  "createCanvas =
     \<lparr>cv_width = 300, cv_height = 150, cv_bitmap = [], ctx_filter = FilterNone,
      ctx_transform = identity_matrix\<rparr>"

text \<open>
  \<open>canvas.width\<close> and \<open>canvas.height\<close> are \<open>unsigned long\<close> attributes.  A number
  assigned to them is truncated towards zero and reduced modulo \<open>2^32\<close>; a value above
  \<open>2147483647\<close> is replaced by the attribute's default.
\<close>

definition js_trunc :: "real \<Rightarrow> int" where
  "js_trunc v = (if 0 \<le> v then \<lfloor>v\<rfloor> else \<lceil>v\<rceil>)"

definition to_unsigned_long :: "real \<Rightarrow> nat" where
  "to_unsigned_long v = nat (js_trunc v mod 4294967296)"

definition reflect_dimension :: "nat \<Rightarrow> real \<Rightarrow> nat" where
  "reflect_dimension dflt v =
     (let n = to_unsigned_long v in if n \<le> 2147483647 then n else dflt)"

text \<open>
  Assigning either dimension clears the bitmap and resets the context to its default state
  (no filter, identity transformation).
\<close>

definition set_width :: "canvas \<Rightarrow> real \<Rightarrow> canvas" where
  "set_width cv v =
     \<lparr>cv_width = reflect_dimension 300 v, cv_height = cv_height cv, cv_bitmap = [],
      ctx_filter = FilterNone, ctx_transform = identity_matrix\<rparr>"

definition set_height :: "canvas \<Rightarrow> real \<Rightarrow> canvas" where
  "set_height cv v =
     \<lparr>cv_width = cv_width cv, cv_height = reflect_dimension 150 v, cv_bitmap = [],
      ctx_filter = FilterNone, ctx_transform = identity_matrix\<rparr>"

definition set_filter :: "canvas \<Rightarrow> css_filter \<Rightarrow> canvas" where
  "set_filter cv fl = cv\<lparr>ctx_filter := fl\<rparr>"

definition translate :: "canvas \<Rightarrow> real \<Rightarrow> real \<Rightarrow> canvas" where
  "translate cv tx ty =
     cv\<lparr>ctx_transform := mat_mul (ctx_transform cv) (translation_matrix tx ty)\<rparr>"

definition rotate_ctx :: "canvas \<Rightarrow> real \<Rightarrow> canvas" where
  "rotate_ctx cv angle =
     cv\<lparr>ctx_transform := mat_mul (ctx_transform cv) (rotation_matrix angle)\<rparr>"

definition clearRect :: "canvas \<Rightarrow> real \<Rightarrow> real \<Rightarrow> real \<Rightarrow> real \<Rightarrow> canvas" where
  "clearRect cv px py pw ph =
     cv\<lparr>cv_bitmap := cv_bitmap cv @ [ClearRect (ctx_transform cv) px py pw ph]\<rparr>"

definition bitmap_of_canvas :: "canvas \<Rightarrow> bitmap" where
  "bitmap_of_canvas cv = CanvasBitmap (cv_width cv) (cv_height cv) (cv_bitmap cv)"

text \<open>
  \<open>drawImage\<close> with nine arguments.  A canvas source with a zero dimension raises
  \<open>InvalidStateError\<close>; an image source with a zero dimension, or an empty source
  rectangle, paints nothing.
\<close>

definition drawImage9 ::
  "canvas \<Rightarrow> bitmap \<Rightarrow> real \<Rightarrow> real \<Rightarrow> real \<Rightarrow> real \<Rightarrow> real \<Rightarrow> real \<Rightarrow> real \<Rightarrow> real \<Rightarrow>
     js_error + canvas" where
  "drawImage9 cv src sx sy sw sh dx dy dw dh =
     (let paint =
            (if sw = 0 \<or> sh = 0 then cv
             else cv\<lparr>cv_bitmap := cv_bitmap cv @
                      [DrawImage src (ctx_filter cv) (ctx_transform cv) sx sy sw sh dx dy dw dh]\<rparr>)
      in case src of
           CanvasBitmap wd ht ops \<Rightarrow> if wd = 0 \<or> ht = 0 then Inl InvalidStateError else Inr paint
         | ImageBitmap i \<Rightarrow> if img_width i = 0 \<or> img_height i = 0 then Inr cv else Inr paint)"

text \<open>\<open>drawImage\<close> with three arguments: the whole source, at its own size.\<close>

definition drawImage3 :: "canvas \<Rightarrow> bitmap \<Rightarrow> real \<Rightarrow> real \<Rightarrow> js_error + canvas" where
  "drawImage3 cv src dx dy =
     drawImage9 cv src 0 0 (real (bitmap_width src)) (real (bitmap_height src))
       dx dy (real (bitmap_width src)) (real (bitmap_height src))"




subsection \<open>Double-precision arithmetic\<close>

text \<open>
  Rounding to the nearest double, ties to the even significand: a double has 53 significant
  bits, so the doubles around a number \<open>x\<close> with \<open>2^e \<le> |x| < 2^(e+1)\<close> are the multiples of
  \<open>2^(e-52)\<close>; below \<open>2^(-1022)\<close> the spacing stays \<open>2^(-1074)\<close>.  Results beyond the largest
  double (overflow to infinity) are not modelled.
\<close>

definition round_half_even :: "real \<Rightarrow> int" where
  "round_half_even x =
     (let f = \<lfloor>x\<rfloor>; d = x - of_int f
      in if d < 1 / 2 then f else if 1 / 2 < d then f + 1 else if even f then f else f + 1)"

definition binary_exponent :: "real \<Rightarrow> int" where
  "binary_exponent x = max \<lfloor>log 2 \<bar>x\<bar>\<rfloor> (- 1022)"

definition to_double :: "real \<Rightarrow> real" where
  "to_double x =
     (if x = 0 then 0
      else (let u = 2 powi (binary_exponent x - 52)
            in of_int (round_half_even (x / u)) * u))"

text \<open>JavaScript's \<open>a / b\<close> and \<open>a * b\<close> on numbers: the exact result, rounded.\<close>

definition div_double :: "real \<Rightarrow> real \<Rightarrow> real" where
  "div_double a b = to_double (a / b)"

definition mul_double :: "real \<Rightarrow> real \<Rightarrow> real" where
  "mul_double a b = to_double (a * b)"

subsection \<open>\<open>handleSave\<close>\<close>

text \<open>Step 1 of \<open>img.onload\<close>: the dimensions for the rotation.\<close>

definition rad :: "editor \<Rightarrow> real" where
  "rad st = (real_of_int (rotation st) * pi) / 180"

definition newWidth :: "editor \<Rightarrow> image \<Rightarrow> real" where
  "newWidth st img =
     real (img_width img) * \<bar>cos (rad st)\<bar> + real (img_height img) * \<bar>sin (rad st)\<bar>"

definition newHeight :: "editor \<Rightarrow> image \<Rightarrow> real" where
  "newHeight st img =
     real (img_width img) * \<bar>sin (rad st)\<bar> + real (img_height img) * \<bar>cos (rad st)\<bar>"

text \<open>Steps 1 and 2: size the canvas, then draw with filters and rotation.\<close>

definition transform_stage :: "editor \<Rightarrow> image \<Rightarrow> canvas \<Rightarrow> js_error + canvas" where
  "transform_stage st img cv =
     (let c1 = set_width cv (newWidth st img);
          c2 = set_height c1 (newHeight st img);
          c3 = set_filter c2 (FilterChain (brightness st) (contrast st) (saturation st));
          c4 = translate c3 (newWidth st img / 2) (newHeight st img / 2);
          c5 = rotate_ctx c4 (rad st)
      in drawImage3 c5 (ImageBitmap img)
           (- real (img_width img) / 2) (- real (img_height img) / 2))"

text \<open>
  Step 3, \<open>if (isCropping) { ... }\<close>.  \<open>nw\<close> and \<open>nh\<close> are the values of \<open>newWidth\<close> and
  \<open>newHeight\<close>, \<open>tempCtx_ok\<close> tells whether \<open>tempCanvas.getContext('2d')\<close> returned a
  context.  The four pixel coordinates are computed as the code computes them, a division
  and a multiplication of doubles each.
\<close>

definition crop_stage :: "editor \<Rightarrow> real \<Rightarrow> real \<Rightarrow> bool \<Rightarrow> canvas \<Rightarrow> js_error + canvas" where
  "crop_stage st nw nh tempCtx_ok cv =
     (if isCropping st then
        (let tempCanvas = set_height (set_width createCanvas nw) nh
         in if tempCtx_ok then
              (case drawImage3 tempCanvas (bitmap_of_canvas cv) 0 0 of
                 Inl err \<Rightarrow> Inl err
               | Inr tempCanvas' \<Rightarrow>
                   (let cx = mul_double (div_double (rect_x (cropRect st)) 100) nw;
                        cy = mul_double (div_double (rect_y (cropRect st)) 100) nh;
                        cw = mul_double (div_double (rect_w (cropRect st)) 100) nw;
                        ch = mul_double (div_double (rect_h (cropRect st)) 100) nh;
                        c1 = set_width cv cw;
                        c2 = set_height c1 ch;
                        c3 = clearRect c2 0 0 cw ch
                    in drawImage9 c3 (bitmap_of_canvas tempCanvas') cx cy cw ch 0 0 cw ch))
            else Inr cv)
      else Inr cv)"

text \<open>Steps 1 to 3: the surface that is exported.\<close>

definition final_canvas :: "editor \<Rightarrow> image \<Rightarrow> bool \<Rightarrow> js_error + canvas" where
  "final_canvas st img tempCtx_ok =
     (case transform_stage st img createCanvas of
        Inl err \<Rightarrow> Inl err
      | Inr cv \<Rightarrow> crop_stage st (newWidth st img) (newHeight st img) tempCtx_ok cv)"



text \<open>The two conditional overlays of the rendered editor.\<close>

definition crop_overlay_shown :: "editor \<Rightarrow> bool" where
  "crop_overlay_shown st \<longleftrightarrow> isCropping st \<and> rotation st = 0"

definition rotation_notice_shown :: "editor \<Rightarrow> bool" where
  "rotation_notice_shown st \<longleftrightarrow> isCropping st \<and> rotation st \<noteq> 0"

text \<open>
  The states the user interface can bring the editor into.  A drag starts on the crop overlay
  (body or bottom-right handle), which is rendered only while \<open>crop_overlay_shown\<close> holds;
  pointer moves are taken with a measured, non-degenerate container box.
\<close>

inductive reachable :: "editor \<Rightarrow> bool" where
  r_init: "reachable initial_editor"
| r_down_move: "reachable st \<Longrightarrow> crop_overlay_shown st \<Longrightarrow> reachable (handleMouseDown st e Move)"
| r_down_se: "reachable st \<Longrightarrow> crop_overlay_shown st \<Longrightarrow> reachable (handleMouseDown st e SE)"
| r_move: "reachable st \<Longrightarrow> 0 < box_width c \<Longrightarrow> 0 < box_height c \<Longrightarrow>
           reachable (window_mousemove st (Some c) e)"
| r_up: "reachable st \<Longrightarrow> reachable (window_mouseup st)"
| r_toggle: "reachable st \<Longrightarrow> reachable (toggleCropping st)"
| r_ccw: "reachable st \<Longrightarrow> reachable (rotateCcw st)"
| r_cw: "reachable st \<Longrightarrow> reachable (rotateCw st)"
| r_brightness: "reachable st \<Longrightarrow> reachable (setBrightness st v)"
| r_contrast: "reachable st \<Longrightarrow> reachable (setContrast st v)"
| r_saturation: "reachable st \<Longrightarrow> reachable (setSaturation st v)"
| r_reset: "reachable st \<Longrightarrow> reachable (resetAll st)"

text \<open>The size of a surface, when there is one.\<close>

definition canvas_size :: "js_error + canvas \<Rightarrow> (nat \<times> nat) option" where
  "canvas_size r = (case r of Inl err \<Rightarrow> None | Inr cv \<Rightarrow> Some (cv_width cv, cv_height cv))"

text \<open>Whether a point of the canvas plane lies on the surface of a canvas.\<close>

definition on_canvas :: "canvas \<Rightarrow> real \<times> real \<Rightarrow> bool" where
  "on_canvas cv p \<longleftrightarrow>
     0 \<le> fst p \<and> fst p \<le> real (cv_width cv) \<and> 0 \<le> snd p \<and> snd p \<le> real (cv_height cv)"

section \<open>The tool views (views/ToolViews.tsx)\<close>

subsection \<open>CSV export\<close>

record TableData =
  headers :: "string list"
  rows :: "string list list"

text \<open>\<open>Array.prototype.join\<close> on an array of strings.\<close>

fun join :: "string \<Rightarrow> string list \<Rightarrow> string" where
  "join sep [] = []"
| "join sep [a] = a"
| "join sep (a # b # bs) = a @ sep @ join sep (b # bs)"

definition csvContent :: "TableData \<Rightarrow> string" where
  "csvContent data =
     join [CHR 0x0A] (join '','' (headers data) # map (\<lambda>row. join '','' row) (rows data))"

text \<open>What \<open>saveFile(blob, name)\<close> hands to the browser: the blob's text, its type, the name.\<close>

record download =
  blob_text :: string
  blob_type :: string
  file_name :: string

definition exportTableToCSV :: "TableData \<Rightarrow> string \<Rightarrow> download" where
  "exportTableToCSV data title =
     \<lparr>blob_text = csvContent data, blob_type = ''text/csv;charset=utf-8;'',
      file_name = title @ ''.csv''\<rparr>"

subsection \<open>\<open>ToolWrapper\<close>: taking the editor's result\<close>




section \<open>The AI service (services/geminiService.ts)\<close>

text \<open>
  The repository holds two versions of this module, here told apart by the suffixes
  \<open>_v1\<close> (the one whose \<open>getAiClient\<close> reads \<open>process.env.API_KEY\<close> only) and \<open>_v2\<close> (the one
  that falls back to \<open>import.meta.env.VITE_API_KEY\<close> and wraps every function body in
  \<open>try { ... } catch (e) { console.error(...); throw e; }\<close>).

  The hosted model and \<open>JSON.parse\<close> are not code of this repository; both are parameters:
  \<open>generateContent\<close> maps a request to the awaited outcome of
  \<open>ai.models.generateContent\<close>, and \<open>JSON_parse\<close> maps a text to the parsed value or to the
  message of the \<open>SyntaxError\<close> it raises.  Console output is not modelled.
\<close>

datatype json =
  JNull | JBool bool | JNumber real | JString string | JArray "json list"
| JObject "(string \<times> json) list"

text \<open>
  The request: model name, inline image data and MIME type, instruction, and the
  \<open>responseMimeType\<close> of the configuration when there is one (the response schema is passed
  along with it and is not modelled).
\<close>

record gen_request =
  req_model :: string
  req_data :: string
  req_mimeType :: string
  req_text :: string
  req_responseMimeType :: "string option"

text \<open>\<open>response.text\<close>: a string or \<open>undefined\<close>.\<close>

record gen_response =
  resp_text :: "string option"

type_synonym ai_service = "gen_request \<Rightarrow> js_error + gen_response"
type_synonym json_parser = "string \<Rightarrow> string + json"

text \<open>JavaScript's \<open>s || d\<close> and \<open>!s\<close> for a string \<open>s\<close> that may be \<open>undefined\<close>.\<close>

definition or_else :: "string option \<Rightarrow> string \<Rightarrow> string" where
  "or_else s d = (case s of None \<Rightarrow> d | Some t \<Rightarrow> if t = [] then d else t)"

definition falsy :: "string option \<Rightarrow> bool" where
  "falsy s \<longleftrightarrow> s = None \<or> s = Some []"

definition getAiClient_v1 :: "string option \<Rightarrow> js_error + string" where
  "getAiClient_v1 env_API_KEY =
     (case env_API_KEY of
        None \<Rightarrow> Inl (Error ''API Key is missing. Please check your environment configuration.'')
      | Some apiKey \<Rightarrow>
          if apiKey = []
          then Inl (Error ''API Key is missing. Please check your environment configuration.'')
          else Inr apiKey)"

text \<open>
  In the second version \<open>meta_env\<close> is \<open>import.meta.env\<close> when it exists, holding
  \<open>VITE_API_KEY\<close>.
\<close>

definition getAiClient_v2 :: "string option \<Rightarrow> string option option \<Rightarrow> js_error + string" where
  "getAiClient_v2 env_API_KEY meta_env =
     (let apiKey =
            (if falsy env_API_KEY
             then (case meta_env of None \<Rightarrow> env_API_KEY | Some vite_key \<Rightarrow> vite_key)
             else env_API_KEY)
      in case apiKey of
           None \<Rightarrow> Inl (Error
             ''API Key is missing. Please check your .env file or Vercel environment variables.'')
         | Some k \<Rightarrow>
             if k = []
             then Inl (Error
               ''API Key is missing. Please check your .env file or Vercel environment variables.'')
             else Inr k)"

definition tableRequest :: "string \<Rightarrow> string \<Rightarrow> gen_request" where
  "tableRequest base64Data mime =
     \<lparr>req_model = ''gemini-2.5-flash'', req_data = base64Data, req_mimeType = mime,
      req_text = ''Extract the table data from this image.'',
      req_responseMimeType = Some ''application/json''\<rparr>"

definition idCardRequest :: "string \<Rightarrow> string \<Rightarrow> gen_request" where
  "idCardRequest base64Data mime =
     \<lparr>req_model = ''gemini-2.5-flash'', req_data = base64Data, req_mimeType = mime,
      req_text = ''Analyze this ID card or document. Extract key information into a structured format. If a field is not found, leave it empty or omit.'',
      req_responseMimeType = Some ''application/json''\<rparr>"

text \<open>
  First version: the client and the request are outside the \<open>try\<close>; a failure of
  \<open>JSON.parse\<close> is caught and a new \<open>Error\<close> is thrown.
\<close>

definition extractTableData_v1 ::
  "string option \<Rightarrow> ai_service \<Rightarrow> json_parser \<Rightarrow> string \<Rightarrow> string \<Rightarrow> js_error + json" where
  "extractTableData_v1 env_API_KEY generateContent JSON_parse base64Data mime =
     (case getAiClient_v1 env_API_KEY of
        Inl err \<Rightarrow> Inl err
      | Inr ai \<Rightarrow>
          (case generateContent (tableRequest base64Data mime) of
             Inl err \<Rightarrow> Inl err
           | Inr response \<Rightarrow>
               (case JSON_parse (or_else (resp_text response) ''{}'') of
                  Inl msg \<Rightarrow> Inl (Error ''Could not extract table data.'')
                | Inr v \<Rightarrow> Inr v)))"

definition scanIDCard_v1 ::
  "string option \<Rightarrow> ai_service \<Rightarrow> json_parser \<Rightarrow> string \<Rightarrow> string \<Rightarrow> js_error + json" where
  "scanIDCard_v1 env_API_KEY generateContent JSON_parse base64Data mime =
     (case getAiClient_v1 env_API_KEY of
        Inl err \<Rightarrow> Inl err
      | Inr ai \<Rightarrow>
          (case generateContent (idCardRequest base64Data mime) of
             Inl err \<Rightarrow> Inl err
           | Inr response \<Rightarrow>
               (case JSON_parse (or_else (resp_text response) ''{}'') of
                  Inl msg \<Rightarrow> Inl (Error ''Could not scan ID card.'')
                | Inr v \<Rightarrow> Inr v)))"

text \<open>
  Second version: the whole body is inside the \<open>try\<close>, and the handler throws what it caught,
  so every failure leaves the function as it arose.
\<close>

definition extractTableData_v2 ::
  "string option \<Rightarrow> string option option \<Rightarrow> ai_service \<Rightarrow> json_parser \<Rightarrow> string \<Rightarrow> string \<Rightarrow>
     js_error + json" where
  "extractTableData_v2 env_API_KEY meta_env generateContent JSON_parse base64Data mime =
     (case getAiClient_v2 env_API_KEY meta_env of
        Inl err \<Rightarrow> Inl err
      | Inr ai \<Rightarrow>
          (case generateContent (tableRequest base64Data mime) of
             Inl err \<Rightarrow> Inl err
           | Inr response \<Rightarrow>
               (case JSON_parse (or_else (resp_text response) ''{}'') of
                  Inl msg \<Rightarrow> Inl (SyntaxError msg)
                | Inr v \<Rightarrow> Inr v)))"

definition scanIDCard_v2 ::
  "string option \<Rightarrow> string option option \<Rightarrow> ai_service \<Rightarrow> json_parser \<Rightarrow> string \<Rightarrow> string \<Rightarrow>
     js_error + json" where
  "scanIDCard_v2 env_API_KEY meta_env generateContent JSON_parse base64Data mime =
     (case getAiClient_v2 env_API_KEY meta_env of
        Inl err \<Rightarrow> Inl err
      | Inr ai \<Rightarrow>
          (case generateContent (idCardRequest base64Data mime) of
             Inl err \<Rightarrow> Inl err
           | Inr response \<Rightarrow>
               (case JSON_parse (or_else (resp_text response) ''{}'') of
                  Inl msg \<Rightarrow> Inl (SyntaxError msg)
                | Inr v \<Rightarrow> Inr v)))"

subsection \<open>Instances of the platform parameters for the examples\<close>


definition fixed_service :: "gen_response \<Rightarrow> ai_service" where
  "fixed_service response request = Inr response"

definition empty_object_parser :: json_parser where
  "empty_object_parser s =
     (if s = ''{}'' then Inr (JObject []) else Inl ''Unexpected token'')"

section \<open>Properties of the editor\<close>

subsection \<open>Dragging the crop rectangle\<close>

lemma clamp_cases:
  "lo \<le> hi \<Longrightarrow> clamp lo hi v = (if v < lo then lo else if hi < v then hi else v)"
  by (simp add: clamp_def max_def min_def)

lemma clamp_bounds: "lo \<le> hi \<Longrightarrow> lo \<le> clamp lo hi v \<and> clamp lo hi v \<le> hi"
  by (simp add: clamp_def max_def min_def)








text \<open>
  The lower bounds do not depend on the start rectangle: a resize never yields a side below
  10, a move never a negative corner.
\<close>

lemma handleMouseMove_lower_bounds:
  assumes "dragRef st = Some d" and "0 < box_width c" and "0 < box_height c"
  shows "dtype d = Some SE \<Longrightarrow>
           10 \<le> rect_w (cropRect (handleMouseMove st (Some c) e)) \<and>
           10 \<le> rect_h (cropRect (handleMouseMove st (Some c) e))"
    and "dtype d = Some Move \<Longrightarrow>
           0 \<le> rect_x (cropRect (handleMouseMove st (Some c) e)) \<and>
           0 \<le> rect_y (cropRect (handleMouseMove st (Some c) e))"
  using assms(1) by (simp_all add: handleMouseMove_def Let_def)

text \<open>
  In every state the interface can reach, the crop rectangle and the snapshot of a running
  gesture satisfy the invariant, and the rotation is a whole number of quarter turns.
\<close>

lemma reachable_invariants:
  "reachable st \<Longrightarrow>
     crop_inv (cropRect st) \<and> (\<forall>d. dragRef st = Some d \<longrightarrow> crop_inv (startRect d)) \<and>
     90 dvd rotation st"
proof (induction rule: reachable.induct)
  case r_init
  show ?case by (simp add: initial_editor_def default_rect_def crop_inv_def)
next
  case (r_move st c e)
  then show ?case
    by (auto simp add: window_mousemove_def handleMouseMove_def crop_inv_def Let_def
        split: option.splits)
next
  case (r_reset st)
  then show ?case by (simp add: resetAll_def crop_inv_def)
qed (auto simp add: handleMouseDown_def window_mouseup_def handleMouseUp_def toggleCropping_def
    rotateCcw_def rotateCw_def setBrightness_def setContrast_def setSaturation_def)

subsection \<open>Reset\<close>

text \<open>
  C6. The reset action restores, from every editor state, brightness 100, contrast 100,
  saturation 100, rotation 0, crop mode off and the crop rectangle \<open>{10, 10, 80, 80}\<close>.
\<close>

theorem resetAll_restores_defaults:
  "brightness (resetAll st) = 100 \<and> contrast (resetAll st) = 100 \<and>
   saturation (resetAll st) = 100 \<and> rotation (resetAll st) = 0 \<and>
   \<not> isCropping (resetAll st) \<and>
   rect_x (cropRect (resetAll st)) = 10 \<and> rect_y (cropRect (resetAll st)) = 10 \<and>
   rect_w (cropRect (resetAll st)) = 80 \<and> rect_h (cropRect (resetAll st)) = 80"
  by (simp add: resetAll_def)

section \<open>Properties of \<open>handleSave\<close>\<close>

subsection \<open>Canvas dimensions\<close>

lemma reflect_dimension_nat:
  "n \<le> 2147483647 \<Longrightarrow> reflect_dimension dflt (real n) = n"
  by (simp add: reflect_dimension_def to_unsigned_long_def js_trunc_def Let_def nat_mod_distrib)

lemma reflect_dimension_floor:
  assumes "0 \<le> v" and "v < 2147483648"
  shows "reflect_dimension dflt v = nat \<lfloor>v\<rfloor>"
proof -
  have lo: "0 \<le> \<lfloor>v\<rfloor>" using assms by simp
  have hi: "\<lfloor>v\<rfloor> < 2147483648" using assms by (simp add: floor_less_iff)
  have m: "\<lfloor>v\<rfloor> mod 4294967296 = \<lfloor>v\<rfloor>" using lo hi by simp
  have n: "nat \<lfloor>v\<rfloor> \<le> 2147483647" using lo hi by linarith
  show ?thesis using assms m n
    by (simp add: reflect_dimension_def to_unsigned_long_def js_trunc_def Let_def)
qed


subsection \<open>Quarter turns\<close>

lemma quarter_turns:
  assumes "90 dvd r"
  shows "(\<bar>cos (real_of_int r * pi / 180)\<bar> = 1 \<and> \<bar>sin (real_of_int r * pi / 180)\<bar> = 0) \<or>
         (\<bar>cos (real_of_int r * pi / 180)\<bar> = 0 \<and> \<bar>sin (real_of_int r * pi / 180)\<bar> = 1)"
proof -
  from assms obtain k where r: "r = 90 * k" by (auto simp: dvd_def)
  show ?thesis
  proof (cases "even k")
    case True
    then obtain m where k: "k = 2 * m" by (auto simp: dvd_def)
    have e: "real_of_int r * pi / 180 = pi * of_int m" by (simp add: r k)
    have "\<bar>cos (pi * real_of_int m)\<bar> = 1" "sin (pi * real_of_int m) = 0"
      by simp_all
    then show ?thesis unfolding e by simp
  next
    case False
    then obtain m where k: "k = 2 * m + 1" by (auto elim: oddE)
    have e: "real_of_int r * pi / 180 = pi * of_int m + pi / 2"
      by (simp add: r k algebra_simps)
    have "cos (pi * of_int m + pi / 2) = 0" "\<bar>sin (pi * real_of_int m + pi / 2)\<bar> = 1"
      by (simp_all add: sin_add cos_add)
    then show ?thesis unfolding e by simp
  qed
qed

lemma quarter_turn_sizes:
  assumes "90 dvd rotation st"
  shows "(newWidth st img = real (img_width img) \<and> newHeight st img = real (img_height img)) \<or>
         (newWidth st img = real (img_height img) \<and> newHeight st img = real (img_width img))"
  using quarter_turns [OF assms] by (auto simp add: newWidth_def newHeight_def rad_def)

lemma newWidth_rotation_0:
  "rotation st = 0 \<Longrightarrow> newWidth st img = real (img_width img)"
  "rotation st = 0 \<Longrightarrow> newHeight st img = real (img_height img)"
  by (simp_all add: newWidth_def newHeight_def rad_def)

lemma newWidth_rotation_90:
  "rotation st = 90 \<Longrightarrow> newWidth st img = real (img_height img)"
  "rotation st = 90 \<Longrightarrow> newHeight st img = real (img_width img)"
  by (simp_all add: newWidth_def newHeight_def rad_def)

subsection \<open>Bounds of the bounding box\<close>



subsection \<open>The rotated image inside its bounding box\<close>

text \<open>
  A point \<open>(u, v)\<close> of a \<open>w\<close> by \<open>h\<close> rectangle, rotated by \<open>t\<close> about the rectangle's
  centre and moved to the centre of the bounding box \<open>W\<close> by \<open>H\<close>, lies in that box.
\<close>

lemma rotated_point_inside:
  fixes w h u v t :: real
  assumes "0 \<le> u" "u \<le> w" "0 \<le> v" "v \<le> h"
  defines "W \<equiv> w * \<bar>cos t\<bar> + h * \<bar>sin t\<bar>"
    and "H \<equiv> w * \<bar>sin t\<bar> + h * \<bar>cos t\<bar>"
  shows "0 \<le> cos t * (u - w / 2) - sin t * (v - h / 2) + W / 2"
    and "cos t * (u - w / 2) - sin t * (v - h / 2) + W / 2 \<le> W"
    and "0 \<le> sin t * (u - w / 2) + cos t * (v - h / 2) + H / 2"
    and "sin t * (u - w / 2) + cos t * (v - h / 2) + H / 2 \<le> H"
proof -
  have au: "\<bar>u - w / 2\<bar> \<le> w / 2" and av: "\<bar>v - h / 2\<bar> \<le> h / 2"
    using assms(1-4) by linarith+
  have cu: "\<bar>cos t * (u - w / 2)\<bar> \<le> \<bar>cos t\<bar> * (w / 2)"
    unfolding abs_mult by (rule mult_left_mono [OF au]) simp
  have sv: "\<bar>sin t * (v - h / 2)\<bar> \<le> \<bar>sin t\<bar> * (h / 2)"
    unfolding abs_mult by (rule mult_left_mono [OF av]) simp
  have su: "\<bar>sin t * (u - w / 2)\<bar> \<le> \<bar>sin t\<bar> * (w / 2)"
    unfolding abs_mult by (rule mult_left_mono [OF au]) simp
  have cv: "\<bar>cos t * (v - h / 2)\<bar> \<le> \<bar>cos t\<bar> * (h / 2)"
    unfolding abs_mult by (rule mult_left_mono [OF av]) simp
  have W2: "W / 2 = \<bar>cos t\<bar> * (w / 2) + \<bar>sin t\<bar> * (h / 2)"
    and H2: "H / 2 = \<bar>sin t\<bar> * (w / 2) + \<bar>cos t\<bar> * (h / 2)"
    unfolding W_def H_def by (simp_all add: field_simps)
  have x: "\<bar>cos t * (u - w / 2) - sin t * (v - h / 2)\<bar> \<le> W / 2"
    unfolding W2 using abs_triangle_ineq4 [of "cos t * (u - w / 2)" "sin t * (v - h / 2)"] cu sv
    by linarith
  have y: "\<bar>sin t * (u - w / 2) + cos t * (v - h / 2)\<bar> \<le> H / 2"
    unfolding H2 using abs_triangle_ineq [of "sin t * (u - w / 2)" "cos t * (v - h / 2)"] su cv
    by linarith
  show "0 \<le> cos t * (u - w / 2) - sin t * (v - h / 2) + W / 2"
    and "cos t * (u - w / 2) - sin t * (v - h / 2) + W / 2 \<le> W"
    using x by linarith+
  show "0 \<le> sin t * (u - w / 2) + cos t * (v - h / 2) + H / 2"
    and "sin t * (u - w / 2) + cos t * (v - h / 2) + H / 2 \<le> H"
    using y by linarith+
qed

lemma apply_centre_rotation:
  "apply_matrix (mat_mul (translation_matrix tx ty) (rotation_matrix t)) (px, py) =
     (cos t * px - sin t * py + tx, sin t * px + cos t * py + ty)"
  by (simp add: apply_matrix_def mat_mul_def translation_matrix_def rotation_matrix_def)

subsection \<open>The transform step\<close>

lemma transform_stage_eq:
  assumes "0 < img_width img" and "0 < img_height img"
  shows "transform_stage st img createCanvas =
      Inr \<lparr>cv_width = reflect_dimension 300 (newWidth st img),
           cv_height = reflect_dimension 150 (newHeight st img),
           cv_bitmap =
             [DrawImage (ImageBitmap img)
                (FilterChain (brightness st) (contrast st) (saturation st))
                (mat_mul (translation_matrix (newWidth st img / 2) (newHeight st img / 2))
                   (rotation_matrix (rad st)))
                0 0 (real (img_width img)) (real (img_height img))
                (- real (img_width img) / 2) (- real (img_height img) / 2)
                (real (img_width img)) (real (img_height img))],
           ctx_filter = FilterChain (brightness st) (contrast st) (saturation st),
           ctx_transform =
             mat_mul (translation_matrix (newWidth st img / 2) (newHeight st img / 2))
               (rotation_matrix (rad st))\<rparr>"
  using assms
  by (simp add: transform_stage_def Let_def set_width_def set_height_def set_filter_def
      translate_def rotate_ctx_def drawImage3_def drawImage9_def createCanvas_def
      mat_mul_def identity_matrix_def translation_matrix_def rotation_matrix_def)

text \<open>The transform step at a whole number of quarter turns.\<close>

lemma transform_stage_quarter_turn:
  assumes "90 dvd rotation st"
    and "img_width img \<le> 2147483647" and "img_height img \<le> 2147483647"
  shows "real (reflect_dimension 300 (newWidth st img)) = newWidth st img"
    and "real (reflect_dimension 150 (newHeight st img)) = newHeight st img"
    and "0 \<le> u \<Longrightarrow> u \<le> real (img_width img) \<Longrightarrow> 0 \<le> v \<Longrightarrow> v \<le> real (img_height img) \<Longrightarrow>
         on_canvas \<lparr>cv_width = reflect_dimension 300 (newWidth st img),
                    cv_height = reflect_dimension 150 (newHeight st img),
                    cv_bitmap = bm, ctx_filter = fl, ctx_transform = M\<rparr>
           (apply_matrix
              (mat_mul (translation_matrix (newWidth st img / 2) (newHeight st img / 2))
                 (rotation_matrix (rad st)))
              (- real (img_width img) / 2 + u, - real (img_height img) / 2 + v))"
proof -
  show ew: "real (reflect_dimension 300 (newWidth st img)) = newWidth st img"
    using quarter_turn_sizes [of st img] assms by (auto simp add: reflect_dimension_nat)
  show eh: "real (reflect_dimension 150 (newHeight st img)) = newHeight st img"
    using quarter_turn_sizes [of st img] assms by (auto simp add: reflect_dimension_nat)
  assume uv: "0 \<le> u" "u \<le> real (img_width img)" "0 \<le> v" "v \<le> real (img_height img)"
  let ?M = "mat_mul (translation_matrix (newWidth st img / 2) (newHeight st img / 2))
              (rotation_matrix (rad st))"
  have p: "apply_matrix ?M (- real (img_width img) / 2 + u, - real (img_height img) / 2 + v) =
      (cos (rad st) * (u - real (img_width img) / 2)
         - sin (rad st) * (v - real (img_height img) / 2) + newWidth st img / 2,
       sin (rad st) * (u - real (img_width img) / 2)
         + cos (rad st) * (v - real (img_height img) / 2) + newHeight st img / 2)"
    by (simp add: apply_centre_rotation algebra_simps)
  show "on_canvas \<lparr>cv_width = reflect_dimension 300 (newWidth st img),
                    cv_height = reflect_dimension 150 (newHeight st img),
                    cv_bitmap = bm, ctx_filter = fl, ctx_transform = M\<rparr>
           (apply_matrix ?M (- real (img_width img) / 2 + u, - real (img_height img) / 2 + v))"
    unfolding on_canvas_def p
    using rotated_point_inside [OF uv, of "rad st", folded newWidth_def newHeight_def]
    by (simp add: ew eh)
qed

text \<open>
  C1. In every state the editor can reach (\<open>reachable\<close>: its rotation is any of the angles
  the interface produces) and for every source image of width \<open>w\<close> and height \<open>h\<close> (positive,
  below \<open>2^31\<close>), the transform step allocates a destination surface of exactly width
  \<open>w |cos \<theta>| + h |sin \<theta>|\<close> and height \<open>w |sin \<theta>| + h |cos \<theta>|\<close>, \<open>\<theta>\<close> the rotation in
  radians, and draws the filtered source, once, translated to the centre of that box, rotated
  by \<open>\<theta>\<close> and offset by \<open>(-w/2, -h/2)\<close>; every point of the rotated image, its corners
  included, lies on the destination surface.
\<close>

theorem transform_stage_bounding_box:
  assumes "reachable st"
    and "0 < img_width img" and "0 < img_height img"
    and "img_width img \<le> 2147483647" and "img_height img \<le> 2147483647"
  shows "\<exists>cv. let w = real (img_width img); h = real (img_height img);
                  t = real_of_int (rotation st) * pi / 180;
                  W = w * \<bar>cos t\<bar> + h * \<bar>sin t\<bar>;
                  H = w * \<bar>sin t\<bar> + h * \<bar>cos t\<bar>;
                  fl = FilterChain (brightness st) (contrast st) (saturation st);
                  M = mat_mul (translation_matrix (W / 2) (H / 2)) (rotation_matrix t)
              in transform_stage st img createCanvas = Inr cv \<and>
                 real (cv_width cv) = W \<and> real (cv_height cv) = H \<and>
                 cv_bitmap cv = [DrawImage (ImageBitmap img) fl M 0 0 w h (- w / 2) (- h / 2) w h] \<and>
                 (\<forall>u v. 0 \<le> u \<and> u \<le> w \<and> 0 \<le> v \<and> v \<le> h \<longrightarrow>
                    on_canvas cv (apply_matrix M (- w / 2 + u, - h / 2 + v)))"
proof -
  have q: "90 dvd rotation st"
    using reachable_invariants [OF assms(1)] by simp
  let ?fl = "FilterChain (brightness st) (contrast st) (saturation st)"
  let ?M = "mat_mul (translation_matrix (newWidth st img / 2) (newHeight st img / 2))
              (rotation_matrix (rad st))"
  let ?cv = "\<lparr>cv_width = reflect_dimension 300 (newWidth st img),
              cv_height = reflect_dimension 150 (newHeight st img),
              cv_bitmap =
                [DrawImage (ImageBitmap img) ?fl ?M
                   0 0 (real (img_width img)) (real (img_height img))
                   (- real (img_width img) / 2) (- real (img_height img) / 2)
                   (real (img_width img)) (real (img_height img))],
              ctx_filter = ?fl, ctx_transform = ?M\<rparr>"
  have t: "transform_stage st img createCanvas = Inr ?cv"
    by (rule transform_stage_eq [OF assms(2,3)])
  have rd: "real_of_int (rotation st) * pi / 180 = rad st"
    by (simp add: rad_def)
  have W: "real (img_width img) * \<bar>cos (rad st)\<bar> + real (img_height img) * \<bar>sin (rad st)\<bar>
             = newWidth st img"
    and H: "real (img_width img) * \<bar>sin (rad st)\<bar> + real (img_height img) * \<bar>cos (rad st)\<bar>
             = newHeight st img"
    by (simp_all add: newWidth_def newHeight_def)
  have sz: "real (cv_width ?cv) = newWidth st img" "real (cv_height ?cv) = newHeight st img"
    using transform_stage_quarter_turn(1,2) [OF q assms(4,5)] by simp_all
  have inside: "on_canvas ?cv
      (apply_matrix ?M (- real (img_width img) / 2 + u, - real (img_height img) / 2 + v))"
    if "0 \<le> u \<and> u \<le> real (img_width img) \<and> 0 \<le> v \<and> v \<le> real (img_height img)" for u v
    using transform_stage_quarter_turn(3) [OF q assms(4,5), of u v] that by blast
  have bm: "cv_bitmap ?cv =
      [DrawImage (ImageBitmap img) ?fl ?M
         0 0 (real (img_width img)) (real (img_height img))
         (- real (img_width img) / 2) (- real (img_height img) / 2)
         (real (img_width img)) (real (img_height img))]"
    by simp
  show ?thesis
    unfolding Let_def rd W H
    using t sz bm inside by blast
qed

text \<open>
  An instance: after one turn to the right a 1000 by 500 image lands on a surface of 500 by
  1000.
\<close>

theorem transform_stage_bounding_box_witness:
  "reachable (rotateCw initial_editor) \<and>
   0 < img_width \<lparr>img_width = 1000, img_height = 500\<rparr> \<and>
   0 < img_height \<lparr>img_width = 1000, img_height = 500\<rparr> \<and>
   img_width \<lparr>img_width = 1000, img_height = 500\<rparr> \<le> 2147483647 \<and>
   img_height \<lparr>img_width = 1000, img_height = 500\<rparr> \<le> 2147483647 \<and>
   canvas_size (transform_stage (rotateCw initial_editor)
       \<lparr>img_width = 1000, img_height = 500\<rparr> createCanvas) = Some (500, 1000)"
proof -
  let ?st = "rotateCw initial_editor"
  let ?img = "\<lparr>img_width = 1000, img_height = 500\<rparr>"
  have r: "reachable ?st" by (intro reachable.intros)
  have p: "0 < img_width ?img" "0 < img_height ?img"
    "img_width ?img \<le> 2147483647" "img_height ?img \<le> 2147483647" by simp_all
  have rot: "rotation ?st = 90" by (simp add: rotateCw_def initial_editor_def)
  have tr: "real_of_int (rotation ?st) * pi / 180 = pi / 2"
    by (simp add: rot)
  from transform_stage_bounding_box [OF r p, unfolded Let_def tr]
  obtain cv where cv: "transform_stage ?st ?img createCanvas = Inr cv"
    and w: "real (cv_width cv) = real (img_width ?img) * \<bar>cos (pi / 2)\<bar>
                                 + real (img_height ?img) * \<bar>sin (pi / 2)\<bar>"
    and h: "real (cv_height cv) = real (img_width ?img) * \<bar>sin (pi / 2)\<bar>
                                  + real (img_height ?img) * \<bar>cos (pi / 2)\<bar>"
    by blast
  from w h have "cv_width cv = 500" "cv_height cv = 1000" by simp_all
  with cv have "canvas_size (transform_stage ?st ?img createCanvas) = Some (500, 1000)"
    by (simp add: canvas_size_def)
  with r show ?thesis by simp
qed

subsection \<open>Rounding to doubles\<close>

lemma binary_exponent_eq:
  assumes "2 powi e \<le> \<bar>x\<bar>" and "\<bar>x\<bar> < 2 powi (e + 1)" and "- 1022 \<le> e"
  shows "binary_exponent x = e"
proof -
  have "0 < (2::real) powi e" by (rule zero_less_power_int) simp
  with assms(1) have pos: "0 < \<bar>x\<bar>" by linarith
  have p1: "(2::real) powr real_of_int e = 2 powi e"
    by (rule powr_real_of_int') simp_all
  have p2: "(2::real) powr (real_of_int e + 1) = 2 powi (e + 1)"
    using powr_real_of_int' [of "2::real" "e + 1"] by simp
  have "\<lfloor>log 2 \<bar>x\<bar>\<rfloor> = e"
    using assms(1,2) pos
    by (subst floor_log_eq_powr_iff) (simp_all add: p1 p2)
  then show ?thesis using assms(3) by (simp add: binary_exponent_def)
qed

text \<open>The double nearest to a number whose binary exponent is known.\<close>

lemma to_double_eval:
  assumes "2 powi e \<le> \<bar>x\<bar>" and "\<bar>x\<bar> < 2 powi (e + 1)" and "- 1022 \<le> e"
  shows "to_double x = of_int (round_half_even (x / 2 powi (e - 52))) * 2 powi (e - 52)"
proof -
  have "0 < (2::real) powi e" by (rule zero_less_power_int) simp
  with assms(1) have "0 < \<bar>x\<bar>" by linarith
  then have "x \<noteq> 0" by simp
  then show ?thesis
    by (simp add: to_double_def binary_exponent_eq [OF assms] Let_def)
qed

text \<open>The doubles nearest to 0.1, 0.8 and 0.29.\<close>

lemma div_double_10_100: "div_double 10 100 = 7205759403792794 / 2 ^ 56"
  unfolding div_double_def
  using to_double_eval [of "-4" "10 / 100"]
  by (simp add: round_half_even_def Let_def)

lemma div_double_80_100: "div_double 80 100 = 7205759403792794 / 2 ^ 53"
  unfolding div_double_def
  using to_double_eval [of "-1" "80 / 100"]
  by (simp add: round_half_even_def Let_def)

lemma div_double_29_100: "div_double 29 100 = 5224175567749775 / 2 ^ 54"
  unfolding div_double_def
  using to_double_eval [of "-2" "29 / 100"]
  by (simp add: round_half_even_def Let_def)

text \<open>The percentages of the default rectangle, taken of 1000, 500 and 101 pixels.\<close>

lemma ten_percent_of_1000: "mul_double (div_double 10 100) 1000 = 100"
  unfolding div_double_10_100 mul_double_def
  using to_double_eval [of 6 "7205759403792794 / 2 ^ 56 * 1000"]
  by (simp add: round_half_even_def Let_def)

lemma eighty_percent_of_1000: "mul_double (div_double 80 100) 1000 = 800"
  unfolding div_double_80_100 mul_double_def
  using to_double_eval [of 9 "7205759403792794 / 2 ^ 53 * 1000"]
  by (simp add: round_half_even_def Let_def)

lemma eighty_percent_of_500: "mul_double (div_double 80 100) 500 = 400"
  unfolding div_double_80_100 mul_double_def
  using to_double_eval [of 8 "7205759403792794 / 2 ^ 53 * 500"]
  by (simp add: round_half_even_def Let_def)

lemma eighty_percent_of_101:
  "mul_double (div_double 80 100) 101 = 5685794529555252 / 2 ^ 46"
  "reflect_dimension dflt (mul_double (div_double 80 100) 101) = 80"
proof -
  show e: "mul_double (div_double 80 100) 101 = 5685794529555252 / 2 ^ 46"
    unfolding div_double_80_100 mul_double_def
    using to_double_eval [of 6 "7205759403792794 / 2 ^ 53 * 101"]
    by (simp add: round_half_even_def Let_def)
  show "reflect_dimension dflt (mul_double (div_double 80 100) 101) = 80"
    unfolding e by (simp add: reflect_dimension_floor)
qed

text \<open>
  A product that is whole in exact arithmetic need not be whole in doubles: 29 percent of
  100 pixels is the double just below 29, and the canvas stores 28.
\<close>

lemma twenty_nine_percent_of_100:
  "mul_double (div_double 29 100) 100 = 8162774324609023 / 2 ^ 48"
  "reflect_dimension dflt (mul_double (div_double 29 100) 100) = 28"
proof -
  show e: "mul_double (div_double 29 100) 100 = 8162774324609023 / 2 ^ 48"
    unfolding div_double_29_100 mul_double_def
    using to_double_eval [of 4 "5224175567749775 / 2 ^ 54 * 100"]
    by (simp add: round_half_even_def Let_def)
  show "reflect_dimension dflt (mul_double (div_double 29 100) 100) = 28"
    unfolding e by (simp add: reflect_dimension_floor)
qed

subsection \<open>The crop step\<close>


lemma crop_stage_eq:
  assumes "isCropping st" and "0 < cv_width cv" and "0 < cv_height cv"
    and "0 < reflect_dimension 300 nw" and "0 < reflect_dimension 150 nh"
  shows "crop_stage st nw nh True cv =
      Inr \<lparr>cv_width = reflect_dimension 300 (mul_double (div_double (rect_w (cropRect st)) 100) nw),
           cv_height = reflect_dimension 150 (mul_double (div_double (rect_h (cropRect st)) 100) nh),
           cv_bitmap =
             ClearRect identity_matrix 0 0
               (mul_double (div_double (rect_w (cropRect st)) 100) nw)
               (mul_double (div_double (rect_h (cropRect st)) 100) nh) #
             (if mul_double (div_double (rect_w (cropRect st)) 100) nw = 0 \<or>
                 mul_double (div_double (rect_h (cropRect st)) 100) nh = 0
              then []
              else [DrawImage
                      (CanvasBitmap (reflect_dimension 300 nw) (reflect_dimension 150 nh)
                         [DrawImage (bitmap_of_canvas cv) FilterNone identity_matrix
                            0 0 (real (cv_width cv)) (real (cv_height cv))
                            0 0 (real (cv_width cv)) (real (cv_height cv))])
                      FilterNone identity_matrix
                      (mul_double (div_double (rect_x (cropRect st)) 100) nw)
                      (mul_double (div_double (rect_y (cropRect st)) 100) nh)
                      (mul_double (div_double (rect_w (cropRect st)) 100) nw)
                      (mul_double (div_double (rect_h (cropRect st)) 100) nh)
                      0 0
                      (mul_double (div_double (rect_w (cropRect st)) 100) nw)
                      (mul_double (div_double (rect_h (cropRect st)) 100) nh)]),
           ctx_filter = FilterNone, ctx_transform = identity_matrix\<rparr>"
  using assms
  by (simp add: crop_stage_def Let_def set_width_def set_height_def clearRect_def
      drawImage3_def drawImage9_def createCanvas_def bitmap_of_canvas_def)


text \<open>
  C2, as amended.  For every crop rectangle in percent and every non-empty transformed
  surface, the crop step computes \<open>cx = (x/100) newWidth\<close>, \<open>cy = (y/100) newHeight\<close>,
  \<open>cw = (w/100) newWidth\<close>, \<open>ch = (h/100) newHeight\<close> in double arithmetic; it sizes the
  destination to these \<open>cw\<close> by \<open>ch\<close> as the canvas stores them, which is their whole-pixel
  part and is exactly \<open>(cw, ch)\<close> when the two computed numbers are whole; and it draws the
  region \<open>(cx, cy, cw, ch)\<close> of a copy of the transformed surface onto \<open>(0, 0, cw, ch)\<close>,
  with source and destination of the same size, no filter and the identity transformation.
\<close>

theorem crop_stage_region:
  assumes "isCropping st" and "0 < cv_width cv" and "0 < cv_height cv"
    and "0 < reflect_dimension 300 nw" and "0 < reflect_dimension 150 nh"
  shows "let cx = mul_double (div_double (rect_x (cropRect st)) 100) nw;
             cy = mul_double (div_double (rect_y (cropRect st)) 100) nh;
             cw = mul_double (div_double (rect_w (cropRect st)) 100) nw;
             ch = mul_double (div_double (rect_h (cropRect st)) 100) nh;
             temp = CanvasBitmap (reflect_dimension 300 nw) (reflect_dimension 150 nh)
                      [DrawImage (bitmap_of_canvas cv) FilterNone identity_matrix
                         0 0 (real (cv_width cv)) (real (cv_height cv))
                         0 0 (real (cv_width cv)) (real (cv_height cv))]
         in crop_stage st nw nh True cv =
              Inr \<lparr>cv_width = reflect_dimension 300 cw, cv_height = reflect_dimension 150 ch,
                   cv_bitmap =
                     ClearRect identity_matrix 0 0 cw ch #
                     (if cw = 0 \<or> ch = 0 then []
                      else [DrawImage temp FilterNone identity_matrix cx cy cw ch 0 0 cw ch]),
                   ctx_filter = FilterNone, ctx_transform = identity_matrix\<rparr> \<and>
            (0 \<le> cw \<and> cw < 2147483648 \<longrightarrow> reflect_dimension 300 cw = nat \<lfloor>cw\<rfloor>) \<and>
            (0 \<le> ch \<and> ch < 2147483648 \<longrightarrow> reflect_dimension 150 ch = nat \<lfloor>ch\<rfloor>) \<and>
            (\<forall>m n. cw = real m \<and> ch = real n \<and> m \<le> 2147483647 \<and> n \<le> 2147483647 \<longrightarrow>
                   reflect_dimension 300 cw = m \<and> reflect_dimension 150 ch = n)"
  unfolding Let_def
  using crop_stage_eq [OF assms]
  by (auto simp add: reflect_dimension_floor reflect_dimension_nat)

text \<open>
  The specification's example as an instance: the rectangle \<open>{10, 10, 80, 80}\<close> on a 1000 by
  1000 surface gives an 800 by 800 surface drawn from the offset (100, 100).
\<close>

theorem crop_stage_region_witness:
  "isCropping (toggleCropping initial_editor) \<and>
   crop_stage (toggleCropping initial_editor) 1000 1000 True
     \<lparr>cv_width = 1000, cv_height = 1000, cv_bitmap = [], ctx_filter = FilterNone,
      ctx_transform = identity_matrix\<rparr> =
   Inr \<lparr>cv_width = 800, cv_height = 800,
        cv_bitmap =
          [ClearRect identity_matrix 0 0 800 800,
           DrawImage
             (CanvasBitmap 1000 1000
                [DrawImage (CanvasBitmap 1000 1000 []) FilterNone identity_matrix
                   0 0 1000 1000 0 0 1000 1000])
             FilterNone identity_matrix 100 100 800 800 0 0 800 800],
        ctx_filter = FilterNone, ctx_transform = identity_matrix\<rparr>"
proof -
  let ?st = "toggleCropping initial_editor"
  let ?cv = "\<lparr>cv_width = 1000, cv_height = 1000, cv_bitmap = [], ctx_filter = FilterNone,
      ctx_transform = identity_matrix\<rparr>"
  have c: "isCropping ?st" by (simp add: toggleCropping_def initial_editor_def)
  have r: "cropRect ?st = default_rect" by (simp add: toggleCropping_def initial_editor_def)
  have d: "reflect_dimension dflt 1000 = 1000" "reflect_dimension dflt 800 = 800" for dflt
    using reflect_dimension_nat [of 1000 dflt] reflect_dimension_nat [of 800 dflt] by simp_all
  have p: "0 < cv_width ?cv" "0 < cv_height ?cv"
    "0 < reflect_dimension 300 1000" "0 < reflect_dimension 150 1000"
    by (simp_all add: d)
  from crop_stage_region [OF c p] show ?thesis
    using c
    by (simp add: Let_def r default_rect_def d bitmap_of_canvas_def
        ten_percent_of_1000 eighty_percent_of_1000)
qed

text \<open>
  C2 as stated fails when \<open>cw\<close> or \<open>ch\<close> is not a whole number: the default rectangle on a
  101 by 101 image asks for 80.8 by 80.8 pixels (the double \<open>80.80000000000001\<close>), and the
  destination is 80 by 80.
\<close>

theorem crop_stage_fraction_counterexample:
  "canvas_size (final_canvas (toggleCropping initial_editor)
       \<lparr>img_width = 101, img_height = 101\<rparr> True) = Some (80, 80) \<and>
   mul_double (div_double (rect_w (cropRect (toggleCropping initial_editor))) 100)
      (newWidth (toggleCropping initial_editor) \<lparr>img_width = 101, img_height = 101\<rparr>)
     = 5685794529555252 / 2 ^ 46 \<and>
   real 80 < 5685794529555252 / 2 ^ 46"
proof -
  let ?st = "toggleCropping initial_editor"
  let ?img = "\<lparr>img_width = 101, img_height = 101\<rparr>"
  have r: "rotation ?st = 0" "isCropping ?st" "cropRect ?st = default_rect"
    by (simp_all add: toggleCropping_def initial_editor_def)
  have n: "newWidth ?st ?img = 101" "newHeight ?st ?img = 101"
    using newWidth_rotation_0 [OF r(1), of ?img] by simp_all
  have d: "reflect_dimension dflt 101 = 101" for dflt
    using reflect_dimension_nat [of 101 dflt] by simp
  have "canvas_size (final_canvas ?st ?img True) = Some (80, 80)"
    by (simp add: final_canvas_def transform_stage_eq crop_stage_eq r n d canvas_size_def
        default_rect_def eighty_percent_of_101(2))
  moreover have "mul_double (div_double (rect_w (cropRect ?st)) 100) (newWidth ?st ?img)
      = 5685794529555252 / 2 ^ 46"
    unfolding r n default_rect_def by (simp add: eighty_percent_of_101(1))
  moreover have "real 80 < 5685794529555252 / 2 ^ 46" by simp
  ultimately show ?thesis by blast
qed

subsection \<open>Cropping and rotation\<close>

text \<open>
  C3 does not hold of \<open>handleSave\<close>.  After one turn to the right and with crop mode switched
  on, the editor shows the notice instead of the crop overlay, and saving a 1000 by 500 image
  still crops: the transformed surface is 500 by 1000, the saved one 400 by 800.
\<close>

theorem save_crops_at_rotation_90:
  "rotation (toggleCropping (rotateCw initial_editor)) = 90 \<and>
   isCropping (toggleCropping (rotateCw initial_editor)) \<and>
   rotation_notice_shown (toggleCropping (rotateCw initial_editor)) \<and>
   \<not> crop_overlay_shown (toggleCropping (rotateCw initial_editor)) \<and>
   canvas_size (transform_stage (toggleCropping (rotateCw initial_editor))
                  \<lparr>img_width = 1000, img_height = 500\<rparr> createCanvas) = Some (500, 1000) \<and>
   canvas_size (final_canvas (toggleCropping (rotateCw initial_editor))
                  \<lparr>img_width = 1000, img_height = 500\<rparr> True) = Some (400, 800)"
proof -
  let ?st = "toggleCropping (rotateCw initial_editor)"
  let ?img = "\<lparr>img_width = 1000, img_height = 500\<rparr>"
  have r: "rotation ?st = 90" "isCropping ?st" "cropRect ?st = default_rect"
    by (simp_all add: toggleCropping_def rotateCw_def initial_editor_def)
  have n: "newWidth ?st ?img = 500" "newHeight ?st ?img = 1000"
    using newWidth_rotation_90 [OF r(1), of ?img] by simp_all
  have d: "reflect_dimension dflt 1000 = 1000" "reflect_dimension dflt 500 = 500"
    "reflect_dimension dflt 800 = 800" "reflect_dimension dflt 400 = 400" for dflt
    using reflect_dimension_nat [of 1000 dflt] reflect_dimension_nat [of 800 dflt]
      reflect_dimension_nat [of 500 dflt] reflect_dimension_nat [of 400 dflt] by simp_all
  have t: "canvas_size (transform_stage ?st ?img createCanvas) = Some (500, 1000)"
    by (simp add: transform_stage_eq n d canvas_size_def)
  have f: "canvas_size (final_canvas ?st ?img True) = Some (400, 800)"
    by (simp add: final_canvas_def transform_stage_eq crop_stage_eq r n d canvas_size_def
        default_rect_def eighty_percent_of_500 eighty_percent_of_1000)
  show ?thesis
    using r t f by (simp add: rotation_notice_shown_def crop_overlay_shown_def)
qed

text \<open>The state of that example is one the interface reaches.\<close>

lemma rotated_cropping_reachable: "reachable (toggleCropping (rotateCw initial_editor))"
  by (intro reachable.intros)

subsection \<open>Export\<close>









section \<open>Properties of the tool views\<close>

lemma join_lines: "join sep (a # xs) = a @ concat (map (\<lambda>x. sep @ x) xs)"
  by (induction xs arbitrary: a) simp_all

text \<open>
  C7. For every table, the CSV text is the headers joined with commas, followed, for each
  row in order, by one newline and the row's cells joined with commas; this text is what is
  downloaded.  Nothing is escaped: \<open>{headers: ["A","B"], rows: [["1","2"]]}\<close> gives
  \<open>A,B\<close>, newline, \<open>1,2\<close>, and a cell \<open>a,b\<close> gives the same text as the two cells \<open>a\<close> and
  \<open>b\<close>.
\<close>

theorem csvContent_joins:
  "csvContent data =
     join '','' (headers data) @ concat (map (\<lambda>row. [CHR 0x0A] @ join '','' row) (rows data)) \<and>
   blob_text (exportTableToCSV data title) = csvContent data \<and>
   csvContent \<lparr>headers = [''A'', ''B''], rows = [[''1'', ''2'']]\<rparr> = ''A,B'' @ [CHR 0x0A] @ ''1,2'' \<and>
   csvContent \<lparr>headers = [''H''], rows = [[''a,b'', ''c'']]\<rparr> =
     csvContent \<lparr>headers = [''H''], rows = [[''a'', ''b'', ''c'']]\<rparr>"
  by (simp add: csvContent_def join_lines exportTableToCSV_def comp_def)

section \<open>Properties of the AI service\<close>

lemma getAiClient_v1_ok: "k \<noteq> [] \<Longrightarrow> getAiClient_v1 (Some k) = Inr k"
  by (simp add: getAiClient_v1_def)

lemma getAiClient_v2_ok: "k \<noteq> [] \<Longrightarrow> getAiClient_v2 (Some k) meta_env = Inr k"
  by (simp add: getAiClient_v2_def falsy_def)

text \<open>
  C8, as amended.  When the service answers and the text of the answer is not valid JSON, the
  first version of \<open>extractTableData\<close> and \<open>scanIDCard\<close> catches the parse failure and throws
  a new error, \<open>Could not extract table data.\<close> or \<open>Could not scan ID card.\<close>; the second
  version catches it, logs it and throws the same \<open>SyntaxError\<close> on to the caller.
\<close>

theorem parse_failure_outcomes:
  assumes "k \<noteq> []"
    and "generateContent (tableRequest d m) = Inr ra"
    and "JSON_parse (or_else (resp_text ra) ''{}'') = Inl msga"
    and "generateContent (idCardRequest d m) = Inr rb"
    and "JSON_parse (or_else (resp_text rb) ''{}'') = Inl msgb"
  shows "extractTableData_v1 (Some k) generateContent JSON_parse d m =
           Inl (Error ''Could not extract table data.'') \<and>
         scanIDCard_v1 (Some k) generateContent JSON_parse d m =
           Inl (Error ''Could not scan ID card.'') \<and>
         extractTableData_v2 (Some k) meta_env generateContent JSON_parse d m =
           Inl (SyntaxError msga) \<and>
         scanIDCard_v2 (Some k) meta_env generateContent JSON_parse d m =
           Inl (SyntaxError msgb)"
  using assms
  by (simp add: extractTableData_v1_def scanIDCard_v1_def extractTableData_v2_def
      scanIDCard_v2_def getAiClient_v1_ok getAiClient_v2_ok)

text \<open>An instance: the service answers with the text \<open><html>\<close>.\<close>

theorem parse_failure_outcomes_witness:
  "''key'' \<noteq> [] \<and>
   empty_object_parser (or_else (resp_text \<lparr>resp_text = Some ''<html>''\<rparr>) ''{}'') =
     Inl ''Unexpected token'' \<and>
   extractTableData_v1 (Some ''key'') (fixed_service \<lparr>resp_text = Some ''<html>''\<rparr>)
     empty_object_parser ''AAAA'' ''image/png'' = Inl (Error ''Could not extract table data.'') \<and>
   scanIDCard_v2 (Some ''key'') None (fixed_service \<lparr>resp_text = Some ''<html>''\<rparr>)
     empty_object_parser ''AAAA'' ''image/png'' = Inl (SyntaxError ''Unexpected token'')"
proof -
  let ?r = "\<lparr>resp_text = Some ''<html>''\<rparr>"
  have k: "''key'' \<noteq> []" by simp
  have g: "fixed_service ?r (tableRequest ''AAAA'' ''image/png'') = Inr ?r"
    "fixed_service ?r (idCardRequest ''AAAA'' ''image/png'') = Inr ?r"
    by (simp_all add: fixed_service_def)
  have p: "empty_object_parser (or_else (resp_text ?r) ''{}'') = Inl ''Unexpected token''"
    by (simp add: empty_object_parser_def or_else_def)
  from parse_failure_outcomes [where k = "''key''" and generateContent = "fixed_service ?r"
      and JSON_parse = empty_object_parser and d = "''AAAA''" and m = "''image/png''"
      and ra = ?r and rb = ?r and msga = "''Unexpected token''" and msgb = "''Unexpected token''"
      and meta_env = None, OF k g(1) p g(2) p]
  show ?thesis
    using p by simp
qed

text \<open>
  C8 as stated fails for the second version: the parse failure on the text \<open><html>\<close> reaches
  the caller of \<open>extractTableData\<close> as the \<open>SyntaxError\<close> it is.
\<close>

theorem extractTableData_v2_rethrows_counterexample:
  "extractTableData_v2 (Some ''key'') None (fixed_service \<lparr>resp_text = Some ''<html>''\<rparr>)
     empty_object_parser ''AAAA'' ''image/png'' = Inl (SyntaxError ''Unexpected token'') \<and>
   empty_object_parser ''<html>'' = Inl ''Unexpected token''"
  by (simp add: extractTableData_v2_def getAiClient_v2_def falsy_def fixed_service_def
      empty_object_parser_def or_else_def)

text \<open>
  C10. When the service answers and the text of the answer is missing or empty, both
  versions of \<open>extractTableData\<close> and \<open>scanIDCard\<close> parse the literal \<open>{}\<close> instead and
  return the empty object, the very result they return for an answer whose text is \<open>{}\<close>.
  \<open>JSON.parse\<close> is taken to read \<open>{}\<close> as the empty object.
\<close>

theorem empty_text_yields_empty_object:
  assumes "k \<noteq> []"
    and "generateContent (tableRequest d m) = Inr ra" and "falsy (resp_text ra)"
    and "generateContent (idCardRequest d m) = Inr rb" and "falsy (resp_text rb)"
    and "JSON_parse ''{}'' = Inr (JObject [])"
  shows "extractTableData_v1 (Some k) generateContent JSON_parse d m = Inr (JObject []) \<and>
         scanIDCard_v1 (Some k) generateContent JSON_parse d m = Inr (JObject []) \<and>
         extractTableData_v2 (Some k) meta_env generateContent JSON_parse d m = Inr (JObject []) \<and>
         scanIDCard_v2 (Some k) meta_env generateContent JSON_parse d m = Inr (JObject []) \<and>
         extractTableData_v1 (Some k) generateContent JSON_parse d m =
           extractTableData_v1 (Some k) (fixed_service \<lparr>resp_text = Some ''{}''\<rparr>) JSON_parse d m \<and>
         scanIDCard_v1 (Some k) generateContent JSON_parse d m =
           scanIDCard_v1 (Some k) (fixed_service \<lparr>resp_text = Some ''{}''\<rparr>) JSON_parse d m \<and>
         extractTableData_v2 (Some k) meta_env generateContent JSON_parse d m =
           extractTableData_v2 (Some k) meta_env (fixed_service \<lparr>resp_text = Some ''{}''\<rparr>)
             JSON_parse d m \<and>
         scanIDCard_v2 (Some k) meta_env generateContent JSON_parse d m =
           scanIDCard_v2 (Some k) meta_env (fixed_service \<lparr>resp_text = Some ''{}''\<rparr>)
             JSON_parse d m"
proof -
  have t: "or_else (resp_text ra) ''{}'' = ''{}''" "or_else (resp_text rb) ''{}'' = ''{}''"
    using assms(3,5) by (auto simp add: falsy_def or_else_def)
  show ?thesis
    using assms(1,2,4,6) t
    by (simp add: extractTableData_v1_def scanIDCard_v1_def extractTableData_v2_def
        scanIDCard_v2_def getAiClient_v1_ok getAiClient_v2_ok fixed_service_def or_else_def)
qed

text \<open>An instance: an answer without text.\<close>

theorem empty_text_yields_empty_object_witness:
  "''key'' \<noteq> [] \<and> falsy (resp_text \<lparr>resp_text = None\<rparr>) \<and>
   falsy (resp_text \<lparr>resp_text = Some []\<rparr>) \<and>
   empty_object_parser ''{}'' = Inr (JObject []) \<and>
   extractTableData_v2 (Some ''key'') None (fixed_service \<lparr>resp_text = None\<rparr>)
     empty_object_parser ''AAAA'' ''image/png'' = Inr (JObject []) \<and>
   scanIDCard_v1 (Some ''key'') (fixed_service \<lparr>resp_text = None\<rparr>)
     empty_object_parser ''AAAA'' ''image/png'' = Inr (JObject [])"
proof -
  let ?r = "\<lparr>resp_text = None\<rparr>"
  have k: "''key'' \<noteq> []" by simp
  have g: "fixed_service ?r (tableRequest ''AAAA'' ''image/png'') = Inr ?r"
    "fixed_service ?r (idCardRequest ''AAAA'' ''image/png'') = Inr ?r"
    by (simp_all add: fixed_service_def)
  have f: "falsy (resp_text ?r)" "falsy (resp_text \<lparr>resp_text = Some []\<rparr>)"
    by (simp_all add: falsy_def)
  have p: "empty_object_parser ''{}'' = Inr (JObject [])"
    by (simp add: empty_object_parser_def)
  from empty_text_yields_empty_object [where k = "''key''"
      and generateContent = "fixed_service ?r" and JSON_parse = empty_object_parser
      and d = "''AAAA''" and m = "''image/png''" and ra = ?r and rb = ?r and meta_env = None,
      OF k g(1) f(1) g(2) f(1) p]
  show ?thesis
    using f p by simp
qed

end
